theory Spec2Isabelle
  imports Main
begin

section \<open>Data model\<close>

text \<open>
  The task lifecycle service (\<^verbatim>\<open>task.services\<close>) works on three tables of a remote
  store. Only the identifier of a Project and of a User is ever read by the service; a
  Task carries the six columns the service reads and writes. A link column
  (\<^verbatim>\<open>projectId\<close>, \<^verbatim>\<open>assignedToId\<close>) holds the identifier of the linked row;
  the nullable link \<^verbatim>\<open>assignedToId\<close> is an option, \<open>None\<close> being \<^verbatim>\<open>null\<close>.
\<close>

record project =
  p_xata_id :: string

record user =
  u_xata_id :: string

record task =
  xata_id :: string
  description :: string
  status :: string
  dueDate :: string
  projectId :: string
  assignedToId :: "string option"

text \<open>The argument of \<^verbatim>\<open>createTask\<close>: the five fields it destructures.\<close>

record NewTask =
  new_description :: string
  new_status :: string
  new_dueDate :: string
  new_projectId :: string
  new_assignedToId :: "string option"

text \<open>
  The body of \<^verbatim>\<open>updateTask\<close> and \<^verbatim>\<open>patch\<close>: every field may be absent
  (\<open>None\<close>); a present \<^verbatim>\<open>assignedToId\<close> may itself be \<^verbatim>\<open>null\<close>.
\<close>

record UpdateTask =
  upd_description :: "string option"
  upd_status :: "string option"
  upd_dueDate :: "string option"
  upd_assignedToId :: "string option option"

text \<open>A row selected with \<^verbatim>\<open>["*", "assignedToId.*", "projectId.*"]\<close>: the task with
  both links resolved.\<close>

record joined =
  j_task :: task
  j_projectId :: "project option"
  j_assignedToId :: "user option"

text \<open>The \<^verbatim>\<open>details\<close> field of the result envelope has type \<^verbatim>\<open>any\<close>; these are the
  shapes the service puts there.\<close>

datatype details =
  DText string
  | DTask task
  | DJoined joined
  | DJoinedList "joined list"
  | DNull

record envelope =
  code :: int
  message :: string
  details :: details

text \<open>
  Every effect the service has on the outside world is recorded, in order: the mutating
  calls on the Task table, and the calls of the notification dispatcher with their
  message and recipient.
\<close>

datatype effect =
  Created task
  | Updated string
  | Deleted string
  | Notified string string

record world =
  db_Project :: "project list"
  db_User :: "user list"
  db_Task :: "task list"
  next_id :: nat
  trace :: "effect list"

section \<open>The language runtime\<close>

text \<open>
  A query of the store returns a promise. An awaited promise gives its value; a promise
  that is not awaited is an object, and every object is truthy. \<^verbatim>\<open>null\<close> is falsy,
  and so are \<^verbatim>\<open>undefined\<close> and the empty string.
\<close>

datatype 'a promise = Promise 'a

fun await :: "'a promise \<Rightarrow> 'a" where
  "await (Promise x) = x"

fun truthy_promise :: "'a promise \<Rightarrow> bool" where
  "truthy_promise (Promise x) = True"

fun truthy_row :: "'a option \<Rightarrow> bool" where
  "truthy_row None = False"
| "truthy_row (Some r) = True"

fun truthy_string :: "string option \<Rightarrow> bool" where
  "truthy_string None = False"
| "truthy_string (Some s) = (s \<noteq> [])"

text \<open>
  A string of the program is represented by the list of its bytes. Concatenation and
  template literals work on that list; \<^verbatim>\<open>String.prototype.toLowerCase\<close> does not: it
  follows the case mapping of the Unicode standard, which belongs to the runtime. It is
  therefore a parameter \<open>toLowerCase\<close> of the model, as \<^verbatim>\<open>new Date\<close> is below.

  One such mapping, for evaluating the service on concrete inputs: it maps the letters
  \<^verbatim>\<open>A\<close> to \<^verbatim>\<open>Z\<close> to \<^verbatim>\<open>a\<close> to \<^verbatim>\<open>z\<close> and leaves every other byte as it is. On
  a string of ASCII characters this is what the runtime does; it is only ever evaluated
  on such strings.
\<close>

definition asciiLowerChar :: "char \<Rightarrow> char" where
  "asciiLowerChar c =
     (if (65::nat) \<le> of_char c \<and> of_char c \<le> (90::nat)
      then char_of (of_char c + (32::nat)) else c)"

definition asciiLowerCase :: "string \<Rightarrow> string" where
  "asciiLowerCase s = map asciiLowerChar s"

text \<open>
  \<^verbatim>\<open>new Date(s)\<close> belongs to the runtime, and what it makes of a string that is not in
  the date-time format of the language standard depends on the engine. It is therefore
  a parameter \<open>newDate\<close> of the model: \<open>None\<close> is the invalid date, \<open>Some iso\<close> a
  valid date, represented by the canonical instant string its \<^verbatim>\<open>toISOString\<close> returns.
  \<^verbatim>\<open>toISOString\<close> throws a \<^verbatim>\<open>RangeError\<close> on the invalid date.
\<close>

definition toISOString :: "string option \<Rightarrow> string + string" where
  "toISOString d =
     (case d of
        None \<Rightarrow> Inl ''RangeError: Invalid time value''
      | Some instant \<Rightarrow> Inr instant)"

text \<open>
  One such runtime, for evaluating the service on concrete inputs: it reads the
  date-only form \<^verbatim>\<open>YYYY-MM-DD\<close> of the standard (midnight UTC) and nothing else.
\<close>

definition is_digit :: "char \<Rightarrow> bool" where
  "is_digit c \<longleftrightarrow> (48::nat) \<le> of_char c \<and> of_char c \<le> (57::nat)"

definition digit_val :: "char \<Rightarrow> nat" where
  "digit_val c = of_char c - 48"

definition leap_year :: "nat \<Rightarrow> bool" where
  "leap_year y \<longleftrightarrow> (y mod 4 = 0 \<and> y mod 100 \<noteq> 0) \<or> y mod 400 = 0"

definition days_in_month :: "nat \<Rightarrow> nat \<Rightarrow> nat" where
  "days_in_month y m =
     (if m = 2 then (if leap_year y then 29 else 28)
      else if m = 4 \<or> m = 6 \<or> m = 9 \<or> m = 11 then 30 else 31)"

definition dateOnly :: "string \<Rightarrow> string option" where
  "dateOnly s =
     (if length s = 10 \<and> s ! 4 = CHR ''-'' \<and> s ! 7 = CHR ''-''
         \<and> list_all is_digit (take 4 s @ take 2 (drop 5 s) @ drop 8 s)
      then
        (let y = foldl (\<lambda>a c. 10 * a + digit_val c) 0 (take 4 s);
             m = foldl (\<lambda>a c. 10 * a + digit_val c) 0 (take 2 (drop 5 s));
             d = foldl (\<lambda>a c. 10 * a + digit_val c) 0 (drop 8 s)
         in if 1 \<le> m \<and> m \<le> 12 \<and> 1 \<le> d \<and> d \<le> days_in_month y m
            then Some (s @ ''T00:00:00.000Z'') else None)
      else None)"

section \<open>The store\<close>

text \<open>
  The store client is a library; the model gives each call the meaning the service
  relies on, against a store that answers. \<^verbatim>\<open>filter(..).getFirst()\<close> is the first
  matching row or \<^verbatim>\<open>null\<close>, \<^verbatim>\<open>filter(..).getAll()\<close> all matching rows.
\<close>

definition getFirst :: "('r \<Rightarrow> bool) \<Rightarrow> 'r list \<Rightarrow> 'r option promise" where
  "getFirst P rows = Promise (find P rows)"

definition getAll :: "('r \<Rightarrow> bool) \<Rightarrow> 'r list \<Rightarrow> 'r list promise" where
  "getAll P rows = Promise (filter P rows)"

text \<open>The identifier of a new row is assigned by the store.\<close>

fun decimal :: "nat \<Rightarrow> string" where
  "decimal n =
     (if n < 10 then [char_of (48 + n)]
      else decimal (n div 10) @ [char_of (48 + n mod 10)])"

declare decimal.simps [simp del]

definition fresh_id :: "nat \<Rightarrow> string" where
  "fresh_id n = ''rec_'' @ decimal n"

text \<open>\<^verbatim>\<open>Task.create(fields)\<close> adds a row and returns it.\<close>

definition Task_create ::
  "string \<Rightarrow> string \<Rightarrow> string \<Rightarrow> string \<Rightarrow> string option \<Rightarrow> world \<Rightarrow> task \<times> world" where
  "Task_create d s dd p a w =
     (let t = \<lparr>xata_id = fresh_id (next_id w), description = d, status = s,
               dueDate = dd, projectId = p, assignedToId = a\<rparr>
      in (t, w\<lparr>db_Task := db_Task w @ [t], next_id := Suc (next_id w),
               trace := trace w @ [Created t]\<rparr>))"

text \<open>\<^verbatim>\<open>Task.update(id, body)\<close> overwrites the columns present in the body, as they are
  given, and returns the updated row, or \<^verbatim>\<open>null\<close> when there is no such row.\<close>

definition apply_body :: "UpdateTask \<Rightarrow> task \<Rightarrow> task" where
  "apply_body body t =
     t\<lparr>description := (case upd_description body of None \<Rightarrow> description t | Some d \<Rightarrow> d),
       status := (case upd_status body of None \<Rightarrow> status t | Some s \<Rightarrow> s),
       dueDate := (case upd_dueDate body of None \<Rightarrow> dueDate t | Some dd \<Rightarrow> dd),
       assignedToId := (case upd_assignedToId body of None \<Rightarrow> assignedToId t | Some a \<Rightarrow> a)\<rparr>"

definition Task_update :: "string \<Rightarrow> UpdateTask \<Rightarrow> world \<Rightarrow> task option \<times> world" where
  "Task_update i body w =
     (case find (\<lambda>t. xata_id t = i) (db_Task w) of
        None \<Rightarrow> (None, w)
      | Some t \<Rightarrow>
          (Some (apply_body body t),
           w\<lparr>db_Task := map (\<lambda>r. if xata_id r = i then apply_body body r else r) (db_Task w),
             trace := trace w @ [Updated i]\<rparr>))"

text \<open>\<^verbatim>\<open>Task.delete(id)\<close> removes the row and returns it, or \<^verbatim>\<open>null\<close> when there is
  no such row.\<close>

definition Task_delete :: "string \<Rightarrow> world \<Rightarrow> task option \<times> world" where
  "Task_delete i w =
     (case find (\<lambda>t. xata_id t = i) (db_Task w) of
        None \<Rightarrow> (None, w)
      | Some t \<Rightarrow>
          (Some t,
           w\<lparr>db_Task := filter (\<lambda>r. xata_id r \<noteq> i) (db_Task w),
             trace := trace w @ [Deleted i]\<rparr>))"

text \<open>Resolving the two links of a task, as the column selection
  \<^verbatim>\<open>["*", "assignedToId.*", "projectId.*"]\<close> does.\<close>

definition join :: "world \<Rightarrow> task \<Rightarrow> joined" where
  "join w t =
     \<lparr>j_task = t,
      j_projectId = find (\<lambda>p. p_xata_id p = projectId t) (db_Project w),
      j_assignedToId =
        (case assignedToId t of
           None \<Rightarrow> None
         | Some u \<Rightarrow> find (\<lambda>x. u_xata_id x = u) (db_User w))\<rparr>"

section \<open>Collaborators of the service\<close>

text \<open>
  Modelled from the spec: \<^verbatim>\<open>isValidStatus\<close> of \<^verbatim>\<open>types/task.types\<close>, which is not
  among the sources. The spec gives the status enumeration as \<^verbatim>\<open>in-progress\<close> and
  \<^verbatim>\<open>completed\<close>, and the messages of the service say the same.
\<close>

definition isValidStatus :: "string \<Rightarrow> bool" where
  "isValidStatus s \<longleftrightarrow> s = ''in-progress'' \<or> s = ''completed''"

text \<open>
  The notification dispatcher \<^verbatim>\<open>createNotification(message, recipientId)\<close> is an
  external collaborator that answers with an envelope. Its answer is a parameter of the
  model; the call itself is recorded in the trace.
\<close>

definition dispatch ::
  "(string \<Rightarrow> string \<Rightarrow> envelope) \<Rightarrow> string \<Rightarrow> string \<Rightarrow> world \<Rightarrow> envelope \<times> world" where
  "dispatch createNotification msg recipient w =
     (createNotification msg recipient, w\<lparr>trace := trace w @ [Notified msg recipient]\<rparr>)"

text \<open>A template literal \<^verbatim>\<open>'${d}'\<close>: the text between two apostrophes.\<close>

definition quoted :: "string \<Rightarrow> string" where
  "quoted d = [CHR 0x27] @ d @ [CHR 0x27]"

definition status_hint :: string where
  "status_hint =
     ''status must be '' @ quoted ''in-progress'' @ '' or '' @ quoted ''completed'' @ ''!''"

section \<open>The service\<close>

text \<open>
  Every operation is a \<^verbatim>\<open>try\<close> block with a catch-all handler. The block is a function
  to \<open>string + envelope\<close>, where \<open>Inl e\<close> is a thrown error with \<open>e\<close> its
  \<^verbatim>\<open>toString()\<close>; the handler turns it into the envelope with code 500.
\<close>

definition internal :: "(string + envelope) \<times> world \<Rightarrow> envelope \<times> world" where
  "internal r =
     (case r of
        (Inl error, w) \<Rightarrow>
          (\<lparr>code = 500, message = ''Internal server error'', details = DText error\<rparr>, w)
      | (Inr e, w) \<Rightarrow> (e, w))"

subsection \<open>createTask\<close>

text \<open>The project query is not awaited in the source: \<open>project\<close> is the promise.\<close>

definition createTask_try ::
  "(string \<Rightarrow> string) \<Rightarrow> (string \<Rightarrow> string option) \<Rightarrow> NewTask \<Rightarrow> world
     \<Rightarrow> (string + envelope) \<times> world" where
  "createTask_try toLowerCase newDate t w =
     (let project = getFirst (\<lambda>p. p_xata_id p = new_projectId t) (db_Project w) in
      if \<not> truthy_promise project then
        (Inr \<lparr>code = 404, message = ''Error creating Task'',
              details = DText (''Project with id '' @ new_projectId t @ '' does not exist!'')\<rparr>, w)
      else if \<not> isValidStatus (new_status t) then
        (Inr \<lparr>code = 400, message = ''Invalid status!'',
              details = DText status_hint\<rparr>, w)
      else
        let existingTask =
              await (getFirst (\<lambda>r. description r = toLowerCase (new_description t)) (db_Task w))
        in
        if truthy_row existingTask then
          (Inr \<lparr>code = 409, message = ''Error creating Task'',
                details = DText ''Tasks already exists.''\<rparr>, w)
        else
          let parsedDueDate = newDate (new_dueDate t) in
          (case toISOString parsedDueDate of
             Inl error \<Rightarrow> (Inl error, w)
           | Inr instant \<Rightarrow>
               (let (result, w') =
                      Task_create (toLowerCase (new_description t)) (toLowerCase (new_status t))
                        instant (new_projectId t) (new_assignedToId t) w
                in (Inr \<lparr>code = 201, message = ''Task created successfully'',
                          details = DTask result\<rparr>, w'))))"

definition createTask ::
  "(string \<Rightarrow> string) \<Rightarrow> (string \<Rightarrow> string option) \<Rightarrow> NewTask \<Rightarrow> world
     \<Rightarrow> envelope \<times> world" where
  "createTask toLowerCase newDate t w = internal (createTask_try toLowerCase newDate t w)"

subsection \<open>Read operations\<close>

text \<open>The reads are \<^verbatim>\<open>try\<close> blocks as well. The handler of \<^verbatim>\<open>fetchTaskByid\<close> returns
  the bare error string, not an envelope.\<close>

datatype reply = Envelope envelope | Bare string

definition internal_read :: "string + envelope \<Rightarrow> envelope" where
  "internal_read r =
     (case r of
        Inl error \<Rightarrow> \<lparr>code = 500, message = ''Internal server error'', details = DText error\<rparr>
      | Inr e \<Rightarrow> e)"

definition fetchTaskByProjectId_try :: "string \<Rightarrow> world \<Rightarrow> string + envelope" where
  "fetchTaskByProjectId_try pid w =
     (let tasks = await (getAll (\<lambda>r. projectId (j_task r) = pid) (map (join w) (db_Task w))) in
      if length tasks = 0 then
        Inr \<lparr>code = 404, message = ''Tasks not found!'',
             details = DText (''No tasks found for project with id '' @ pid @ ''!'')\<rparr>
      else Inr \<lparr>code = 200, message = ''Tasks found!'', details = DJoinedList tasks\<rparr>)"

definition fetchTaskByProjectId :: "string \<Rightarrow> world \<Rightarrow> envelope" where
  "fetchTaskByProjectId pid w = internal_read (fetchTaskByProjectId_try pid w)"

definition fetchTaskByid_try :: "string \<Rightarrow> world \<Rightarrow> string + envelope" where
  "fetchTaskByid_try i w =
     (case await (getFirst (\<lambda>r. xata_id (j_task r) = i) (map (join w) (db_Task w))) of
        None \<Rightarrow>
          Inr \<lparr>code = 404, message = ''task not found!'',
               details = DText (''task with id '' @ i @ '' not found!'')\<rparr>
      | Some r \<Rightarrow> Inr \<lparr>code = 200, message = ''task found!'', details = DJoined r\<rparr>)"

definition fetchTaskByid :: "string \<Rightarrow> world \<Rightarrow> reply" where
  "fetchTaskByid i w =
     (case fetchTaskByid_try i w of Inl error \<Rightarrow> Bare error | Inr e \<Rightarrow> Envelope e)"

definition fetchTaskByUserId_try :: "string \<Rightarrow> world \<Rightarrow> string + envelope" where
  "fetchTaskByUserId_try userId w =
     (let tasks =
            await (getAll (\<lambda>r. assignedToId (j_task r) = Some userId) (map (join w) (db_Task w)))
      in Inr \<lparr>code = 200, message = ''Tasks found!'', details = DJoinedList tasks\<rparr>)"

definition fetchTaskByUserId :: "string \<Rightarrow> world \<Rightarrow> envelope" where
  "fetchTaskByUserId userId w = internal_read (fetchTaskByUserId_try userId w)"

subsection \<open>updateTask\<close>

definition updateTask_try ::
  "(string \<Rightarrow> string \<Rightarrow> envelope) \<Rightarrow> string \<Rightarrow> UpdateTask \<Rightarrow> world
     \<Rightarrow> (string + envelope) \<times> world" where
  "updateTask_try createNotification taskId body w =
     (case await (getFirst (\<lambda>r. xata_id r = taskId) (db_Task w)) of
        None \<Rightarrow>
          (Inr \<lparr>code = 400, message = ''Error updating task!'',
                details = DText (''Task with id '' @ taskId @ '' does not exist.'')\<rparr>, w)
      | Some t \<Rightarrow>
          if truthy_string (upd_status body) \<and> \<not> isValidStatus (the (upd_status body)) then
            (Inr \<lparr>code = 400, message = ''Error updating task'',
                  details = DText status_hint\<rparr>, w)
          else
            (case Task_update taskId body w of
               (None, w1) \<Rightarrow>
                 (Inr \<lparr>code = 400, message = ''Error updating task!'',
                       details = DText ''Task was not updated!''\<rparr>, w1)
             | (Some result, w1) \<Rightarrow>
                 (let notificationMessage = quoted (description result) @ '' updated!'' in
                  if assignedToId t \<noteq> None then
                    (let (notificationResult, w2) =
                           dispatch createNotification notificationMessage
                             (the (assignedToId t)) w1
                     in if code notificationResult \<noteq> 201 then
                          (Inr \<lparr>code = code notificationResult,
                                message = message notificationResult,
                                details = details notificationResult\<rparr>, w2)
                        else
                          (Inr \<lparr>code = 200, message = ''Task updated successfully'',
                                details = DTask result\<rparr>, w2))
                  else
                    (Inr \<lparr>code = 200, message = ''Task updated successfully'',
                          details = DTask result\<rparr>, w1))))"

definition updateTask ::
  "(string \<Rightarrow> string \<Rightarrow> envelope) \<Rightarrow> string \<Rightarrow> UpdateTask \<Rightarrow> world \<Rightarrow> envelope \<times> world" where
  "updateTask createNotification taskId body w =
     internal (updateTask_try createNotification taskId body w)"

subsection \<open>patch\<close>

text \<open>\<^verbatim>\<open>task.update(body)\<close> updates the row of the record it is called on, and
  \<^verbatim>\<open>task.read(columns)\<close> reads that row again with the links resolved.\<close>

definition patch_try :: "string \<Rightarrow> UpdateTask \<Rightarrow> world \<Rightarrow> (string + envelope) \<times> world" where
  "patch_try taskId body w =
     (case await (getFirst (\<lambda>r. xata_id r = taskId) (db_Task w)) of
        None \<Rightarrow>
          (Inr \<lparr>code = 400, message = ''Error updating task!'',
                details = DText (''Task with id '' @ taskId @ '' does not exist.'')\<rparr>, w)
      | Some t \<Rightarrow>
          (let w1 = snd (Task_update (xata_id t) body w);
               result = await (getFirst (\<lambda>r. xata_id (j_task r) = xata_id t)
                                  (map (join w1) (db_Task w1)))
           in (Inr \<lparr>code = 200, message = ''Task updated successfully'',
                     details = (case result of None \<Rightarrow> DNull | Some r \<Rightarrow> DJoined r)\<rparr>, w1)))"

definition patch :: "string \<Rightarrow> UpdateTask \<Rightarrow> world \<Rightarrow> envelope \<times> world" where
  "patch taskId body w = internal (patch_try taskId body w)"

subsection \<open>deleteTaskFromProject\<close>

definition deleteTaskFromProject_try ::
  "(string \<Rightarrow> string \<Rightarrow> envelope) \<Rightarrow> string \<Rightarrow> world \<Rightarrow> (string + envelope) \<times> world" where
  "deleteTaskFromProject_try createNotification taskId w =
     (case await (getFirst (\<lambda>r. xata_id r = taskId) (db_Task w)) of
        None \<Rightarrow>
          (Inr \<lparr>code = 404, message = ''Error deleting task'',
                details = DText (''Task with id '' @ taskId @ '' does not exist!'')\<rparr>, w)
      | Some t \<Rightarrow>
          (case Task_delete taskId w of
             (None, w1) \<Rightarrow>
               (Inr \<lparr>code = 400, message = ''Error updating task!'',
                     details = DText ''Task was not updated!''\<rparr>, w1)
           | (Some result, w1) \<Rightarrow>
               (let notificationMessage = quoted (description result) @ '' deleted!'' in
                if assignedToId t \<noteq> None then
                  (let (notificationResult, w2) =
                         dispatch createNotification notificationMessage
                           (the (assignedToId t)) w1
                   in if code notificationResult \<noteq> 201 then
                        (Inr \<lparr>code = code notificationResult,
                              message = message notificationResult,
                              details = details notificationResult\<rparr>, w2)
                      else
                        (Inr \<lparr>code = 200, message = ''Task deleted successfully'',
                              details = DTask result\<rparr>, w2))
                else
                  (Inr \<lparr>code = 200, message = ''Task deleted successfully'',
                        details = DTask result\<rparr>, w1))))"

definition deleteTaskFromProject ::
  "(string \<Rightarrow> string \<Rightarrow> envelope) \<Rightarrow> string \<Rightarrow> world \<Rightarrow> envelope \<times> world" where
  "deleteTaskFromProject createNotification taskId w =
     internal (deleteTaskFromProject_try createNotification taskId w)"

subsection \<open>updateTaskStatus\<close>

text \<open>The body of the update is \<^verbatim>\<open>{ status }\<close>: the status column and no other.\<close>

definition status_only :: "string \<Rightarrow> UpdateTask" where
  "status_only s =
     \<lparr>upd_description = None, upd_status = Some s, upd_dueDate = None,
      upd_assignedToId = None\<rparr>"

definition updateTaskStatus_try ::
  "string \<Rightarrow> string \<Rightarrow> world \<Rightarrow> (string + envelope) \<times> world" where
  "updateTaskStatus_try taskId s w =
     (if \<not> isValidStatus s then
        (Inr \<lparr>code = 400, message = ''Invalid status!'', details = DText status_hint\<rparr>, w)
      else
        (case await (getFirst (\<lambda>r. xata_id r = taskId) (db_Task w)) of
           None \<Rightarrow>
             (Inr \<lparr>code = 404, message = ''Error updating task'',
                   details = DText (''Task with id '' @ taskId @ '' does not exist!'')\<rparr>, w)
         | Some t \<Rightarrow>
             (let (result, w1) = Task_update taskId (status_only s) w
              in (Inr \<lparr>code = 200, message = ''Task status updated successfully'',
                        details = (case result of None \<Rightarrow> DNull | Some r \<Rightarrow> DTask r)\<rparr>, w1))))"

definition updateTaskStatus :: "string \<Rightarrow> string \<Rightarrow> world \<Rightarrow> envelope \<times> world" where
  "updateTaskStatus taskId s w = internal (updateTaskStatus_try taskId s w)"

section \<open>What it means that a body was written as given\<close>

text \<open>
  The Task table of \<open>w\<close> has a row with the identifier \<open>i\<close>, and every such row
  carries each field that the body supplies (description, status, due date, assignee)
  exactly as the body has it.
\<close>

definition persisted_verbatim :: "string \<Rightarrow> UpdateTask \<Rightarrow> world \<Rightarrow> bool" where
  "persisted_verbatim i body w \<longleftrightarrow>
     (\<exists>r \<in> set (db_Task w). xata_id r = i) \<and>
     (\<forall>r \<in> set (db_Task w). xata_id r = i \<longrightarrow>
        (case upd_description body of None \<Rightarrow> True | Some d \<Rightarrow> description r = d) \<and>
        (case upd_status body of None \<Rightarrow> True | Some s \<Rightarrow> status r = s) \<and>
        (case upd_dueDate body of None \<Rightarrow> True | Some dd \<Rightarrow> dueDate r = dd) \<and>
        (case upd_assignedToId body of None \<Rightarrow> True | Some a \<Rightarrow> assignedToId r = a))"

section \<open>Concrete inputs\<close>

text \<open>A store with one project, one user and one task assigned to that user, as
  \<^verbatim>\<open>createTask\<close> leaves it; a new task; a dispatcher that succeeds and one that fails.\<close>

definition ex_task :: task where
  "ex_task =
     \<lparr>xata_id = ''rec_0'', description = ''complete the report'', status = ''in-progress'',
      dueDate = ''2023-12-31T00:00:00.000Z'', projectId = ''project123'',
      assignedToId = Some ''user456''\<rparr>"

definition ex_world :: world where
  "ex_world =
     \<lparr>db_Project = [\<lparr>p_xata_id = ''project123''\<rparr>], db_User = [\<lparr>u_xata_id = ''user456''\<rparr>],
      db_Task = [ex_task], next_id = 1, trace = [Created ex_task]\<rparr>"

definition ex_new :: NewTask where
  "ex_new =
     \<lparr>new_description = ''Write the Minutes'', new_status = ''in-progress'',
      new_dueDate = ''2024-02-29'', new_projectId = ''project123'',
      new_assignedToId = Some ''user456''\<rparr>"

definition notify_created :: "string \<Rightarrow> string \<Rightarrow> envelope" where
  "notify_created msg recipient =
     \<lparr>code = 201, message = ''Notification created successfully'', details = DText msg\<rparr>"

definition notify_failed :: "string \<Rightarrow> string \<Rightarrow> envelope" where
  "notify_failed msg recipient =
     \<lparr>code = 500, message = ''Internal server error'', details = DText ''Error: fetch failed''\<rparr>"

text \<open>A body that supplies a description and nothing else.\<close>

definition body_description :: "string \<Rightarrow> UpdateTask" where
  "body_description d =
     \<lparr>upd_description = Some d, upd_status = None, upd_dueDate = None,
      upd_assignedToId = None\<rparr>"

text \<open>A body that supplies a status and nothing else.\<close>

definition body_status :: "string \<Rightarrow> UpdateTask" where
  "body_status s =
     \<lparr>upd_description = None, upd_status = Some s, upd_dueDate = None,
      upd_assignedToId = None\<rparr>"

section \<open>Basic facts\<close>

lemma find_id_Some:
  "find (\<lambda>r. xata_id r = i) ts = Some t \<Longrightarrow> t \<in> set ts \<and> xata_id t = i"
  by (auto simp: find_Some_iff)

lemma asciiLowerCase_idem: "asciiLowerCase (asciiLowerCase s) = asciiLowerCase s"
  by (induction s) (auto simp: asciiLowerCase_def asciiLowerChar_def)

lemma Task_update_Some:
  "find (\<lambda>r. xata_id r = i) (db_Task w) = Some t \<Longrightarrow>
     Task_update i body w =
       (Some (apply_body body t),
        w\<lparr>db_Task := map (\<lambda>r. if xata_id r = i then apply_body body r else r) (db_Task w),
          trace := trace w @ [Updated i]\<rparr>)"
  by (simp add: Task_update_def)

lemma Task_delete_Some:
  "find (\<lambda>r. xata_id r = i) (db_Task w) = Some t \<Longrightarrow>
     Task_delete i w =
       (Some t,
        w\<lparr>db_Task := filter (\<lambda>r. xata_id r \<noteq> i) (db_Task w),
          trace := trace w @ [Deleted i]\<rparr>)"
  by (simp add: Task_delete_def)

lemma xata_id_apply_body [simp]: "xata_id (apply_body body r) = xata_id r"
  by (simp add: apply_body_def)

lemma filter_joined:
  "filter (\<lambda>r. P (j_task r)) (map (join w) ts) = map (join w) (filter P ts)"
  by (induction ts) (simp_all add: join_def)

lemma find_joined_None:
  "find P ts = None \<Longrightarrow> find (\<lambda>r. P (j_task r)) (map (join w) ts) = None"
  by (auto simp: find_None_iff join_def)

lemma db_Task_updateTask:
  assumes "find (\<lambda>r. xata_id r = taskId) (db_Task w) = Some t"
    and "\<not> truthy_string (upd_status body) \<or> isValidStatus (the (upd_status body))"
  shows "db_Task (snd (updateTask createNotification taskId body w)) =
           map (\<lambda>r. if xata_id r = taskId then apply_body body r else r) (db_Task w)"
  using assms
  by (auto simp add: updateTask_def updateTask_try_def internal_def getFirst_def dispatch_def
      Task_update_Some Let_def)

lemma db_Task_patch:
  assumes "find (\<lambda>r. xata_id r = taskId) (db_Task w) = Some t"
  shows "db_Task (snd (patch taskId body w)) =
           map (\<lambda>r. if xata_id r = taskId then apply_body body r else r) (db_Task w)"
proof -
  from assms have "xata_id t = taskId"
    by (blast dest: find_id_Some)
  then have "Task_update (xata_id t) body w = Task_update taskId body w"
    by (simp only:)
  then have u: "snd (Task_update (xata_id t) body w) =
        w\<lparr>db_Task := map (\<lambda>r. if xata_id r = taskId then apply_body body r else r) (db_Task w),
          trace := trace w @ [Updated taskId]\<rparr>"
    by (simp add: Task_update_Some [OF assms])
  show ?thesis
    by (simp add: patch_def patch_try_def internal_def getFirst_def assms u Let_def)
qed

lemma persisted_verbatim_map:
  assumes "find (\<lambda>r. xata_id r = taskId) ts = Some t"
    and "db_Task w' = map (\<lambda>r. if xata_id r = taskId then apply_body body r else r) ts"
  shows "persisted_verbatim taskId body w'"
proof -
  from assms(1) have t: "t \<in> set ts" "xata_id t = taskId"
    by (blast dest: find_id_Some)+
  then have "(\<lambda>r. if xata_id r = taskId then apply_body body r else r) t
               \<in> (\<lambda>r. if xata_id r = taskId then apply_body body r else r) ` set ts"
    by (intro imageI)
  with t(2) have "apply_body body t \<in> set (db_Task w')"
    by (simp add: assms(2))
  moreover have "xata_id (apply_body body t) = taskId"
    using t by simp
  ultimately have ex: "\<exists>r \<in> set (db_Task w'). xata_id r = taskId"
    by blast
  have "\<forall>r \<in> set (db_Task w'). xata_id r = taskId \<longrightarrow>
        (case upd_description body of None \<Rightarrow> True | Some d \<Rightarrow> description r = d) \<and>
        (case upd_status body of None \<Rightarrow> True | Some s \<Rightarrow> status r = s) \<and>
        (case upd_dueDate body of None \<Rightarrow> True | Some dd \<Rightarrow> dueDate r = dd) \<and>
        (case upd_assignedToId body of None \<Rightarrow> True | Some a \<Rightarrow> assignedToId r = a)"
    using assms(2) by (auto simp: apply_body_def split: option.splits)
  with ex show ?thesis
    by (simp add: persisted_verbatim_def)
qed

text \<open>No path through \<^verbatim>\<open>createTask\<close> ends with code 404.\<close>

lemma createTask_codes:
  "code (fst (createTask toLowerCase newDate t w)) \<in> {400, 409, 500, 201}"
  by (simp add: createTask_def createTask_try_def internal_def getFirst_def toISOString_def
      Task_create_def Let_def split: option.splits)

section \<open>createTask\<close>

text \<open>
  C1. The claim: a new task whose \<^verbatim>\<open>projectId\<close> resolves to no project is answered with
  code 404. The code does not do this. In the store \<open>ex_world\<close> no project has the
  identifier \<^verbatim>\<open>project999\<close>; a new task for that project with the status \<^verbatim>\<open>done\<close> is
  answered with code 400, and one with a valid status is created and answered with code
  201. The project query is not awaited, so the test of its result never fails.
\<close>

theorem createTask_missing_project:
  "map p_xata_id (db_Project ex_world) = [''project123'']
   \<and> code (fst (createTask asciiLowerCase dateOnly
        (ex_new\<lparr>new_projectId := ''project999'', new_status := ''done''\<rparr>) ex_world)) = 400
   \<and> code (fst (createTask asciiLowerCase dateOnly (ex_new\<lparr>new_projectId := ''project999''\<rparr>) ex_world)) = 201"
  by code_simp

text \<open>
  C9. When the project exists, the status is valid, no stored description equals the
  lowercased one and the due date does not parse, the date conversion throws inside the
  \<^verbatim>\<open>try\<close> block, the handler answers with the Internal envelope (code 500), and the
  store is as it was.
\<close>

theorem createTask_unparsable_dueDate:
  assumes "find (\<lambda>p. p_xata_id p = new_projectId t) (db_Project w) \<noteq> None"
    and "isValidStatus (new_status t)"
    and "find (\<lambda>r. description r = toLowerCase (new_description t)) (db_Task w) = None"
    and "newDate (new_dueDate t) = None"
  shows "createTask_try toLowerCase newDate t w = (Inl ''RangeError: Invalid time value'', w)
       \<and> createTask toLowerCase newDate t w =
           (\<lparr>code = 500, message = ''Internal server error'',
             details = DText ''RangeError: Invalid time value''\<rparr>, w)"
  using assms
  by (simp add: createTask_def createTask_try_def internal_def getFirst_def toISOString_def)

theorem createTask_unparsable_dueDate_witness:
  "createTask asciiLowerCase dateOnly (ex_new\<lparr>new_dueDate := ''31/12/2023''\<rparr>) ex_world =
     (\<lparr>code = 500, message = ''Internal server error'',
       details = DText ''RangeError: Invalid time value''\<rparr>, ex_world)"
proof -
  let ?t = "ex_new\<lparr>new_dueDate := ''31/12/2023''\<rparr>"
  have p: "find (\<lambda>p. p_xata_id p = new_projectId ?t) (db_Project ex_world) \<noteq> None"
    by (simp add: ex_new_def ex_world_def)
  have s: "isValidStatus (new_status ?t)"
    by (simp add: ex_new_def isValidStatus_def)
  have u: "find (\<lambda>r. description r = asciiLowerCase (new_description ?t)) (db_Task ex_world) = None"
    by code_simp
  have d: "dateOnly (new_dueDate ?t) = None"
    by (simp add: dateOnly_def)
  show ?thesis
    using createTask_unparsable_dueDate [where t = "?t" and w = ex_world
        and toLowerCase = asciiLowerCase and newDate = dateOnly, OF p s u d]
    by simp
qed

text \<open>
  C5, as stated: whenever the project exists, the status is valid and no stored
  description equals the new one case-insensitively, \<^verbatim>\<open>createTask\<close> answers 201 and
  persists the task. This fails for a due date that does not parse: all three conditions
  hold for the input below, the answer is code 500, and nothing is persisted.
\<close>

theorem createTask_needs_parsable_dueDate_counterexample:
  "map p_xata_id (db_Project ex_world) = [''project123'']
   \<and> new_projectId (ex_new\<lparr>new_dueDate := ''tomorrow''\<rparr>) = ''project123''
   \<and> isValidStatus (new_status (ex_new\<lparr>new_dueDate := ''tomorrow''\<rparr>))
   \<and> map asciiLowerCase (map description (db_Task ex_world)) = [''complete the report'']
   \<and> asciiLowerCase (new_description (ex_new\<lparr>new_dueDate := ''tomorrow''\<rparr>)) = ''write the minutes''
   \<and> code (fst (createTask asciiLowerCase dateOnly (ex_new\<lparr>new_dueDate := ''tomorrow''\<rparr>) ex_world)) = 500
   \<and> snd (createTask asciiLowerCase dateOnly (ex_new\<lparr>new_dueDate := ''tomorrow''\<rparr>) ex_world) = ex_world"
  by code_simp

text \<open>
  C5, amended: when, in addition, the due date parses to a valid date, \<^verbatim>\<open>createTask\<close>
  answers code 201 with the created row, and the row it appends to the Task table has the
  description lowercased, the status lowercased, the canonical instant string of the due
  date, and the project and assignee as given. Two descriptions are equal
  case-insensitively when their lowercase forms are equal. The theorem holds for every
  lowercase mapping that leaves a lowercased string as it is, which the mapping of the
  runtime does.
\<close>

theorem createTask_creates:
  assumes "find (\<lambda>p. p_xata_id p = new_projectId t) (db_Project w) \<noteq> None"
    and "isValidStatus (new_status t)"
    and "\<forall>r \<in> set (db_Task w). toLowerCase (description r) \<noteq> toLowerCase (new_description t)"
    and "newDate (new_dueDate t) = Some instant"
    and "\<forall>s. toLowerCase (toLowerCase s) = toLowerCase s"
  shows "(let row = \<lparr>xata_id = fresh_id (next_id w),
                     description = toLowerCase (new_description t),
                     status = toLowerCase (new_status t),
                     dueDate = instant,
                     projectId = new_projectId t,
                     assignedToId = new_assignedToId t\<rparr>
          in createTask toLowerCase newDate t w =
               (\<lparr>code = 201, message = ''Task created successfully'', details = DTask row\<rparr>,
                w\<lparr>db_Task := db_Task w @ [row], next_id := Suc (next_id w),
                  trace := trace w @ [Created row]\<rparr>))"
proof -
  have "find (\<lambda>r. description r = toLowerCase (new_description t)) (db_Task w) = None"
  proof (rule ccontr)
    assume "find (\<lambda>r. description r = toLowerCase (new_description t)) (db_Task w) \<noteq> None"
    then obtain r where "r \<in> set (db_Task w)" "description r = toLowerCase (new_description t)"
      by (auto simp: find_None_iff)
    with assms(3,5) show False by metis
  qed
  with assms(2,4) show ?thesis
    by (simp add: createTask_def createTask_try_def internal_def getFirst_def toISOString_def
        Task_create_def Let_def)
qed

theorem createTask_creates_witness:
  "createTask asciiLowerCase dateOnly ex_new ex_world =
     (\<lparr>code = 201, message = ''Task created successfully'',
       details = DTask \<lparr>xata_id = ''rec_1'', description = ''write the minutes'',
                        status = ''in-progress'', dueDate = ''2024-02-29T00:00:00.000Z'',
                        projectId = ''project123'', assignedToId = Some ''user456''\<rparr>\<rparr>,
      ex_world\<lparr>db_Task := [ex_task,
                   \<lparr>xata_id = ''rec_1'', description = ''write the minutes'',
                    status = ''in-progress'', dueDate = ''2024-02-29T00:00:00.000Z'',
                    projectId = ''project123'', assignedToId = Some ''user456''\<rparr>],
               next_id := 2,
               trace := [Created ex_task,
                   Created \<lparr>xata_id = ''rec_1'', description = ''write the minutes'',
                    status = ''in-progress'', dueDate = ''2024-02-29T00:00:00.000Z'',
                    projectId = ''project123'', assignedToId = Some ''user456''\<rparr>]\<rparr>)"
proof -
  have p: "find (\<lambda>p. p_xata_id p = new_projectId ex_new) (db_Project ex_world) \<noteq> None"
    by (simp add: ex_new_def ex_world_def)
  have s: "isValidStatus (new_status ex_new)"
    by (simp add: ex_new_def isValidStatus_def)
  have u: "\<forall>r \<in> set (db_Task ex_world).
             asciiLowerCase (description r) \<noteq> asciiLowerCase (new_description ex_new)"
    by code_simp
  have d: "dateOnly (new_dueDate ex_new) = Some ''2024-02-29T00:00:00.000Z''"
    by code_simp
  have l1: "asciiLowerCase (new_description ex_new) = ''write the minutes''"
    by code_simp
  have l2: "asciiLowerCase (new_status ex_new) = ''in-progress''"
    by code_simp
  have i: "fresh_id (Suc 0) = ''rec_1''"
    by code_simp
  have f: "new_projectId ex_new = ''project123''" "new_assignedToId ex_new = Some ''user456''"
    "db_Task ex_world = [ex_task]" "next_id ex_world = 1" "trace ex_world = [Created ex_task]"
    by (simp_all add: ex_new_def ex_world_def)
  show ?thesis
    using createTask_creates [where t = ex_new and w = ex_world
        and instant = "''2024-02-29T00:00:00.000Z''"
        and toLowerCase = asciiLowerCase and newDate = dateOnly, OF p s u d]
      asciiLowerCase_idem
    by (simp add: l1 l2 i f Let_def)
qed

text \<open>
  C6, as stated: a new task whose description equals that of a stored task
  case-insensitively is answered with code 409 and not created. This fails twice. With
  the status \<^verbatim>\<open>done\<close> the answer is code 400, since the status is validated first.
  And the lookup compares the lowercased new description with the stored ones as they
  are: once \<^verbatim>\<open>updateTask\<close> has stored the description \<^verbatim>\<open>Complete the Report\<close>, a
  new task with that very description is created (code 201, two rows).
\<close>

theorem createTask_conflict_counterexample:
  "map description (db_Task ex_world) = [''complete the report'']
   \<and> asciiLowerCase ''Complete the Report'' = ''complete the report''
   \<and> code (fst (createTask asciiLowerCase dateOnly
        (ex_new\<lparr>new_description := ''Complete the Report'', new_status := ''done''\<rparr>) ex_world)) = 400
   \<and> code (fst (updateTask notify_created ''rec_0'' (body_description ''Complete the Report'')
        ex_world)) = 200
   \<and> map description (db_Task (snd (updateTask notify_created ''rec_0''
        (body_description ''Complete the Report'') ex_world))) = [''Complete the Report'']
   \<and> code (fst (createTask asciiLowerCase dateOnly (ex_new\<lparr>new_description := ''Complete the Report''\<rparr>)
        (snd (updateTask notify_created ''rec_0'' (body_description ''Complete the Report'')
           ex_world)))) = 201
   \<and> map description (db_Task (snd (createTask asciiLowerCase dateOnly
        (ex_new\<lparr>new_description := ''Complete the Report''\<rparr>)
        (snd (updateTask notify_created ''rec_0'' (body_description ''Complete the Report'')
           ex_world))))) = [''Complete the Report'', ''complete the report'']"
  by code_simp

text \<open>
  C6, amended: when the project exists, the status is valid and the lowercased new
  description is the stored description of some task, \<^verbatim>\<open>createTask\<close> answers code 409
  and leaves the store as it was.
\<close>

theorem createTask_conflict:
  assumes "find (\<lambda>p. p_xata_id p = new_projectId t) (db_Project w) \<noteq> None"
    and "isValidStatus (new_status t)"
    and "\<exists>r \<in> set (db_Task w). description r = toLowerCase (new_description t)"
  shows "createTask toLowerCase newDate t w =
           (\<lparr>code = 409, message = ''Error creating Task'',
             details = DText ''Tasks already exists.''\<rparr>, w)"
proof -
  from assms(3) obtain r where
    "find (\<lambda>r. description r = toLowerCase (new_description t)) (db_Task w) = Some r"
    by (cases "find (\<lambda>r. description r = toLowerCase (new_description t)) (db_Task w)")
       (auto simp: find_None_iff)
  with assms(2) show ?thesis
    by (simp add: createTask_def createTask_try_def internal_def getFirst_def)
qed

theorem createTask_conflict_witness:
  "isValidStatus (new_status (ex_new\<lparr>new_description := ''Complete THE Report''\<rparr>))
   \<and> (\<exists>r \<in> set (db_Task ex_world).
         description r = asciiLowerCase (new_description (ex_new\<lparr>new_description := ''Complete THE Report''\<rparr>)))
   \<and> createTask asciiLowerCase dateOnly (ex_new\<lparr>new_description := ''Complete THE Report''\<rparr>) ex_world =
           (\<lparr>code = 409, message = ''Error creating Task'',
             details = DText ''Tasks already exists.''\<rparr>, ex_world)"
proof -
  let ?t = "ex_new\<lparr>new_description := ''Complete THE Report''\<rparr>"
  have p: "find (\<lambda>p. p_xata_id p = new_projectId ?t) (db_Project ex_world) \<noteq> None"
    by (simp add: ex_new_def ex_world_def)
  have s: "isValidStatus (new_status ?t)"
    by (simp add: ex_new_def isValidStatus_def)
  have u: "\<exists>r \<in> set (db_Task ex_world). description r = asciiLowerCase (new_description ?t)"
    by code_simp
  show ?thesis
    using s u
      createTask_conflict [where t = "?t" and w = ex_world
        and toLowerCase = asciiLowerCase and newDate = dateOnly, OF p s u]
    by simp
qed

section \<open>updateTask and patch\<close>

text \<open>
  C7. When no task has the identifier, \<^verbatim>\<open>updateTask\<close> and \<^verbatim>\<open>patch\<close> both answer with
  code 400 (not 404) and leave the store as it was.
\<close>

theorem missing_task_answer:
  assumes "find (\<lambda>r. xata_id r = taskId) (db_Task w) = None"
  shows "updateTask createNotification taskId body w =
           (\<lparr>code = 400, message = ''Error updating task!'',
             details = DText (''Task with id '' @ taskId @ '' does not exist.'')\<rparr>, w)
       \<and> patch taskId body w =
           (\<lparr>code = 400, message = ''Error updating task!'',
             details = DText (''Task with id '' @ taskId @ '' does not exist.'')\<rparr>, w)"
  using assms
  by (simp add: updateTask_def updateTask_try_def patch_def patch_try_def internal_def
      getFirst_def)

theorem missing_task_answer_witness:
  "find (\<lambda>r. xata_id r = ''missing-id'') (db_Task ex_world) = None
   \<and> code (fst (updateTask notify_created ''missing-id'' (body_description ''Final Report'')
         ex_world)) = 400
   \<and> code (fst (patch ''missing-id'' (body_description ''Final Report'') ex_world)) = 400"
proof -
  have h: "find (\<lambda>r. xata_id r = ''missing-id'') (db_Task ex_world) = None"
    by code_simp
  show ?thesis
    using h missing_task_answer [where taskId = "''missing-id''" and w = ex_world
        and body = "body_description ''Final Report''" and createNotification = notify_created,
        OF h]
    by simp
qed

text \<open>
  C2, as stated: every \<^verbatim>\<open>updateTask\<close> call on an existing task with an assignee
  dispatches a notification. This fails when the body carries an invalid status: the
  task \<^verbatim>\<open>rec_0\<close> exists and is assigned, the answer is code 400, and neither an update
  nor a notification happens.
\<close>

theorem updateTask_invalid_status_counterexample:
  "db_Task ex_world = [ex_task]
   \<and> xata_id ex_task = ''rec_0''
   \<and> assignedToId ex_task = Some ''user456''
   \<and> updateTask notify_created ''rec_0'' (body_status ''done'') ex_world =
       (\<lparr>code = 400, message = ''Error updating task'', details = DText status_hint\<rparr>, ex_world)
   \<and> trace (snd (updateTask notify_created ''rec_0'' (body_status ''done'') ex_world)) =
       [Created ex_task]"
  by code_simp

text \<open>
  C2, amended: when the task exists with the assignee \<open>u\<close> and the status of the body
  is absent, empty or valid, \<^verbatim>\<open>updateTask\<close> writes the body to the row, then calls the
  dispatcher once. The message is an apostrophe, the description of the updated row, an
  apostrophe and the text \<^verbatim>\<open> updated!\<close>; the recipient is \<open>u\<close>, the assignee before
  the update. If the dispatcher answers with a code other than 201, its code, message and
  details are the answer of \<^verbatim>\<open>updateTask\<close>, and the row stays updated; if it answers
  201, the answer is code 200.
\<close>

theorem updateTask_notifies:
  assumes "find (\<lambda>r. xata_id r = taskId) (db_Task w) = Some t"
    and "assignedToId t = Some u"
    and "\<not> truthy_string (upd_status body) \<or> isValidStatus (the (upd_status body))"
  shows "(let msg = CHR 0x27 # description (apply_body body t) @ CHR 0x27 # '' updated!'';
              answer = createNotification msg u
          in snd (updateTask createNotification taskId body w) =
               w\<lparr>db_Task := map (\<lambda>r. if xata_id r = taskId then apply_body body r else r)
                               (db_Task w),
                 trace := trace w @ [Updated taskId, Notified msg u]\<rparr>
           \<and> (code answer \<noteq> 201 \<longrightarrow>
                fst (updateTask createNotification taskId body w) =
                  \<lparr>code = code answer, message = message answer, details = details answer\<rparr>)
           \<and> (code answer = 201 \<longrightarrow>
                fst (updateTask createNotification taskId body w) =
                  \<lparr>code = 200, message = ''Task updated successfully'',
                   details = DTask (apply_body body t)\<rparr>))"
  using assms
  by (auto simp add: updateTask_def updateTask_try_def internal_def getFirst_def dispatch_def
      Task_update_Some Let_def quoted_def)

theorem updateTask_notifies_witness:
  "updateTask notify_failed ''rec_0'' (body_description ''Final Report'') ex_world =
     (\<lparr>code = 500, message = ''Internal server error'', details = DText ''Error: fetch failed''\<rparr>,
      ex_world\<lparr>db_Task := [ex_task\<lparr>description := ''Final Report''\<rparr>],
               trace := [Created ex_task, Updated ''rec_0'',
                         Notified '''Final Report' updated!'' ''user456'']\<rparr>)"
proof -
  have f: "find (\<lambda>r. xata_id r = ''rec_0'') (db_Task ex_world) = Some ex_task"
    by code_simp
  have a: "assignedToId ex_task = Some ''user456''"
    by (simp add: ex_task_def)
  have s: "\<not> truthy_string (upd_status (body_description ''Final Report''))
           \<or> isValidStatus (the (upd_status (body_description ''Final Report'')))"
    by (simp add: body_description_def)
  have b: "apply_body (body_description ''Final Report'') r = r\<lparr>description := ''Final Report''\<rparr>"
    for r
    by (simp add: apply_body_def body_description_def)
  have x: "xata_id ex_task = ''rec_0''" "db_Task ex_world = [ex_task]"
    "trace ex_world = [Created ex_task]"
    by (simp_all add: ex_task_def ex_world_def)
  show ?thesis
    using updateTask_notifies [where taskId = "''rec_0''" and w = ex_world and t = ex_task
        and u = "''user456''" and body = "body_description ''Final Report''"
        and createNotification = notify_failed, OF f a s]
    by (simp add: Let_def b x notify_failed_def prod_eq_iff)
qed

text \<open>
  C10. For an existing task, \<^verbatim>\<open>updateTask\<close> (when the status of the body passes its
  check) and \<^verbatim>\<open>patch\<close> leave in the store a row that carries the fields of the
  body as they were given: the description is not lowercased, the due date is not parsed.
\<close>

theorem update_persists_body_verbatim:
  assumes "find (\<lambda>r. xata_id r = taskId) (db_Task w) = Some t"
  shows "(\<not> truthy_string (upd_status body) \<or> isValidStatus (the (upd_status body)) \<longrightarrow>
            persisted_verbatim taskId body (snd (updateTask createNotification taskId body w)))
       \<and> persisted_verbatim taskId body (snd (patch taskId body w))"
proof (intro conjI impI)
  assume "\<not> truthy_string (upd_status body) \<or> isValidStatus (the (upd_status body))"
  with assms show
    "persisted_verbatim taskId body (snd (updateTask createNotification taskId body w))"
    by (intro persisted_verbatim_map [OF assms] db_Task_updateTask)
next
  from assms show "persisted_verbatim taskId body (snd (patch taskId body w))"
    by (intro persisted_verbatim_map [OF assms] db_Task_patch)
qed

theorem update_persists_body_verbatim_witness:
  "find (\<lambda>r. xata_id r = ''rec_0'') (db_Task ex_world) = Some ex_task
   \<and> persisted_verbatim ''rec_0'' (body_description ''Final Report'')
        (snd (updateTask notify_created ''rec_0'' (body_description ''Final Report'') ex_world))
   \<and> persisted_verbatim ''rec_0'' (body_description ''Final Report'')
        (snd (patch ''rec_0'' (body_description ''Final Report'') ex_world))
   \<and> code (fst (updateTask notify_created ''rec_0'' (body_description ''Final Report'')
        ex_world)) = 200
   \<and> code (fst (patch ''rec_0'' (body_description ''Final Report'') ex_world)) = 200
   \<and> map description (db_Task (snd (updateTask notify_created ''rec_0''
        (body_description ''Final Report'') ex_world))) = [''Final Report'']
   \<and> map description (db_Task (snd (patch ''rec_0''
        (body_description ''Final Report'') ex_world))) = [''Final Report'']
   \<and> asciiLowerCase ''Final Report'' \<noteq> ''Final Report''"
proof -
  have f: "find (\<lambda>r. xata_id r = ''rec_0'') (db_Task ex_world) = Some ex_task"
    by code_simp
  have s: "\<not> truthy_string (upd_status (body_description ''Final Report''))
           \<or> isValidStatus (the (upd_status (body_description ''Final Report'')))"
    by (simp add: body_description_def)
  have c: "code (fst (updateTask notify_created ''rec_0'' (body_description ''Final Report'')
        ex_world)) = 200
   \<and> code (fst (patch ''rec_0'' (body_description ''Final Report'') ex_world)) = 200
   \<and> map description (db_Task (snd (updateTask notify_created ''rec_0''
        (body_description ''Final Report'') ex_world))) = [''Final Report'']
   \<and> map description (db_Task (snd (patch ''rec_0''
        (body_description ''Final Report'') ex_world))) = [''Final Report'']
   \<and> asciiLowerCase ''Final Report'' \<noteq> ''Final Report''"
    by code_simp
  show ?thesis
    using f s c update_persists_body_verbatim [where taskId = "''rec_0''" and w = ex_world
        and t = ex_task and body = "body_description ''Final Report''"
        and createNotification = notify_created, OF f]
    by blast
qed

section \<open>deleteTaskFromProject\<close>

text \<open>
  C3. When the task exists with the assignee \<open>u\<close>, \<^verbatim>\<open>deleteTaskFromProject\<close> removes
  the row and then calls the dispatcher exactly once. The message is an apostrophe, the
  description of the deleted row, an apostrophe and the text \<^verbatim>\<open> deleted!\<close>; the
  recipient is \<open>u\<close>. Afterwards no row has the identifier, whatever the dispatcher
  answered; an answer with a code other than 201 becomes the answer of the delete, so a
  dispatcher code 500 gives a delete code 500.
\<close>

theorem deleteTaskFromProject_notifies:
  assumes "find (\<lambda>r. xata_id r = taskId) (db_Task w) = Some t"
    and "assignedToId t = Some u"
  shows "(let msg = CHR 0x27 # description t @ CHR 0x27 # '' deleted!'';
              answer = createNotification msg u;
              w' = snd (deleteTaskFromProject createNotification taskId w)
          in w' = w\<lparr>db_Task := filter (\<lambda>r. xata_id r \<noteq> taskId) (db_Task w),
                    trace := trace w @ [Deleted taskId, Notified msg u]\<rparr>
           \<and> find (\<lambda>r. xata_id r = taskId) (db_Task w') = None
           \<and> (code answer \<noteq> 201 \<longrightarrow>
                fst (deleteTaskFromProject createNotification taskId w) =
                  \<lparr>code = code answer, message = message answer, details = details answer\<rparr>)
           \<and> (code answer = 500 \<longrightarrow>
                code (fst (deleteTaskFromProject createNotification taskId w)) = 500))"
  using assms
  by (auto simp add: deleteTaskFromProject_def deleteTaskFromProject_try_def internal_def
      getFirst_def dispatch_def Task_delete_Some Let_def find_None_iff quoted_def)

theorem deleteTaskFromProject_notifies_witness:
  "deleteTaskFromProject notify_failed ''rec_0'' ex_world =
     (\<lparr>code = 500, message = ''Internal server error'', details = DText ''Error: fetch failed''\<rparr>,
      ex_world\<lparr>db_Task := [],
               trace := [Created ex_task, Deleted ''rec_0'',
                         Notified '''complete the report' deleted!'' ''user456'']\<rparr>)"
proof -
  have f: "find (\<lambda>r. xata_id r = ''rec_0'') (db_Task ex_world) = Some ex_task"
    by code_simp
  have a: "assignedToId ex_task = Some ''user456''"
    by (simp add: ex_task_def)
  have x: "xata_id ex_task = ''rec_0''" "db_Task ex_world = [ex_task]"
    "trace ex_world = [Created ex_task]" "description ex_task = ''complete the report''"
    by (simp_all add: ex_task_def ex_world_def)
  show ?thesis
    using deleteTaskFromProject_notifies [where taskId = "''rec_0''" and w = ex_world
        and t = ex_task and u = "''user456''" and createNotification = notify_failed, OF f a]
    by (simp add: Let_def x notify_failed_def prod_eq_iff)
qed

section \<open>updateTaskStatus\<close>

text \<open>
  C4. \<^verbatim>\<open>updateTaskStatus\<close> looks at the status first: an invalid status is answered
  with code 400 whether or not the task exists; a valid status for an identifier that no
  task has is answered with code 404; a valid status for an existing task is answered
  with code 200, the status column of that row is set and nothing else changes, and no
  notification is dispatched.
\<close>

theorem updateTaskStatus_order:
  "(\<not> isValidStatus s \<longrightarrow>
      updateTaskStatus taskId s w =
        (\<lparr>code = 400, message = ''Invalid status!'', details = DText status_hint\<rparr>, w))
   \<and> (isValidStatus s \<and> find (\<lambda>r. xata_id r = taskId) (db_Task w) = None \<longrightarrow>
      updateTaskStatus taskId s w =
        (\<lparr>code = 404, message = ''Error updating task'',
          details = DText (''Task with id '' @ taskId @ '' does not exist!'')\<rparr>, w))
   \<and> (isValidStatus s \<and> find (\<lambda>r. xata_id r = taskId) (db_Task w) = Some t \<longrightarrow>
      updateTaskStatus taskId s w =
        (\<lparr>code = 200, message = ''Task status updated successfully'',
          details = DTask (t\<lparr>status := s\<rparr>)\<rparr>,
         w\<lparr>db_Task := map (\<lambda>r. if xata_id r = taskId then r\<lparr>status := s\<rparr> else r) (db_Task w),
           trace := trace w @ [Updated taskId]\<rparr>))"
proof (intro conjI impI)
  assume "\<not> isValidStatus s"
  then show "updateTaskStatus taskId s w =
        (\<lparr>code = 400, message = ''Invalid status!'', details = DText status_hint\<rparr>, w)"
    by (simp add: updateTaskStatus_def updateTaskStatus_try_def internal_def)
next
  assume "isValidStatus s \<and> find (\<lambda>r. xata_id r = taskId) (db_Task w) = None"
  then show "updateTaskStatus taskId s w =
        (\<lparr>code = 404, message = ''Error updating task'',
          details = DText (''Task with id '' @ taskId @ '' does not exist!'')\<rparr>, w)"
    by (simp add: updateTaskStatus_def updateTaskStatus_try_def internal_def getFirst_def)
next
  assume a: "isValidStatus s \<and> find (\<lambda>r. xata_id r = taskId) (db_Task w) = Some t"
  have b: "apply_body (status_only s) r = r\<lparr>status := s\<rparr>" for r
    by (simp add: apply_body_def status_only_def)
  from a have "Task_update taskId (status_only s) w =
       (Some (t\<lparr>status := s\<rparr>),
        w\<lparr>db_Task := map (\<lambda>r. if xata_id r = taskId then r\<lparr>status := s\<rparr> else r) (db_Task w),
          trace := trace w @ [Updated taskId]\<rparr>)"
    by (simp add: Task_update_Some b)
  with a show "updateTaskStatus taskId s w =
        (\<lparr>code = 200, message = ''Task status updated successfully'',
          details = DTask (t\<lparr>status := s\<rparr>)\<rparr>,
         w\<lparr>db_Task := map (\<lambda>r. if xata_id r = taskId then r\<lparr>status := s\<rparr> else r) (db_Task w),
           trace := trace w @ [Updated taskId]\<rparr>)"
    by (simp add: updateTaskStatus_def updateTaskStatus_try_def internal_def getFirst_def)
qed

theorem updateTaskStatus_order_witness:
  "\<not> isValidStatus ''done'' \<and> isValidStatus ''completed''
   \<and> find (\<lambda>r. xata_id r = ''missing-id'') (db_Task ex_world) = None
   \<and> code (fst (updateTaskStatus ''missing-id'' ''done'' ex_world)) = 400
   \<and> code (fst (updateTaskStatus ''missing-id'' ''completed'' ex_world)) = 404
   \<and> updateTaskStatus ''rec_0'' ''completed'' ex_world =
        (\<lparr>code = 200, message = ''Task status updated successfully'',
          details = DTask (ex_task\<lparr>status := ''completed''\<rparr>)\<rparr>,
         ex_world\<lparr>db_Task := [ex_task\<lparr>status := ''completed''\<rparr>],
                  trace := [Created ex_task, Updated ''rec_0'']\<rparr>)"
proof -
  have v: "\<not> isValidStatus ''done''" "isValidStatus ''completed''"
    by (simp_all add: isValidStatus_def)
  have m: "find (\<lambda>r. xata_id r = ''missing-id'') (db_Task ex_world) = None"
    by code_simp
  have f: "find (\<lambda>r. xata_id r = ''rec_0'') (db_Task ex_world) = Some ex_task"
    by code_simp
  have x: "xata_id ex_task = ''rec_0''" "db_Task ex_world = [ex_task]"
    "trace ex_world = [Created ex_task]"
    by (simp_all add: ex_task_def ex_world_def)
  show ?thesis
    using v m f
      updateTaskStatus_order [where s = "''done''" and taskId = "''missing-id''" and w = ex_world]
      updateTaskStatus_order [where s = "''completed''" and taskId = "''missing-id''"
        and w = ex_world]
      updateTaskStatus_order [where s = "''completed''" and taskId = "''rec_0''" and w = ex_world
        and t = ex_task]
    by (simp add: x)
qed

section \<open>Read operations\<close>

text \<open>
  C8. With no matching row, \<^verbatim>\<open>fetchTaskByProjectId\<close> and \<^verbatim>\<open>fetchTaskByid\<close> answer
  with code 404, and \<^verbatim>\<open>fetchTaskByUserId\<close> answers with code 200 and the empty list.
\<close>

theorem empty_result_policy:
  "((\<forall>r \<in> set (db_Task w). projectId r \<noteq> pid) \<longrightarrow>
      code (fetchTaskByProjectId pid w) = 404)
   \<and> ((\<forall>r \<in> set (db_Task w). xata_id r \<noteq> i) \<longrightarrow>
      (\<exists>e. fetchTaskByid i w = Envelope e \<and> code e = 404))
   \<and> ((\<forall>r \<in> set (db_Task w). assignedToId r \<noteq> Some userId) \<longrightarrow>
      fetchTaskByUserId userId w =
        \<lparr>code = 200, message = ''Tasks found!'', details = DJoinedList []\<rparr>)"
proof (intro conjI impI)
  assume "\<forall>r \<in> set (db_Task w). projectId r \<noteq> pid"
  then have "filter (\<lambda>r. projectId r = pid) (db_Task w) = []"
    by (simp add: filter_empty_conv)
  then show "code (fetchTaskByProjectId pid w) = 404"
    by (simp add: fetchTaskByProjectId_def fetchTaskByProjectId_try_def internal_read_def
        getAll_def Let_def filter_joined [where P = "\<lambda>r. projectId r = pid"])
next
  assume "\<forall>r \<in> set (db_Task w). xata_id r \<noteq> i"
  then have "find (\<lambda>r. xata_id r = i) (db_Task w) = None"
    by (simp add: find_None_iff)
  then have "find (\<lambda>r. xata_id (j_task r) = i) (map (join w) (db_Task w)) = None"
    by (rule find_joined_None)
  then show "\<exists>e. fetchTaskByid i w = Envelope e \<and> code e = 404"
    by (simp add: fetchTaskByid_def fetchTaskByid_try_def getFirst_def)
next
  assume "\<forall>r \<in> set (db_Task w). assignedToId r \<noteq> Some userId"
  then have "filter (\<lambda>r. assignedToId r = Some userId) (db_Task w) = []"
    by (simp add: filter_empty_conv)
  then show "fetchTaskByUserId userId w =
        \<lparr>code = 200, message = ''Tasks found!'', details = DJoinedList []\<rparr>"
    by (simp add: fetchTaskByUserId_def fetchTaskByUserId_try_def internal_read_def
        getAll_def Let_def filter_joined [where P = "\<lambda>r. assignedToId r = Some userId"])
qed

theorem empty_result_policy_witness:
  "map projectId (db_Task ex_world) = [''project123'']
   \<and> map xata_id (db_Task ex_world) = [''rec_0'']
   \<and> map assignedToId (db_Task ex_world) = [Some ''user456'']
   \<and> code (fetchTaskByProjectId ''project999'' ex_world) = 404
   \<and> (\<exists>e. fetchTaskByid ''missing-id'' ex_world = Envelope e \<and> code e = 404)
   \<and> fetchTaskByUserId ''user999'' ex_world =
        \<lparr>code = 200, message = ''Tasks found!'', details = DJoinedList []\<rparr>"
proof -
  have p: "\<forall>r \<in> set (db_Task ex_world). projectId r \<noteq> ''project999''"
    by code_simp
  have i: "\<forall>r \<in> set (db_Task ex_world). xata_id r \<noteq> ''missing-id''"
    by code_simp
  have u: "\<forall>r \<in> set (db_Task ex_world). assignedToId r \<noteq> Some ''user999''"
    by code_simp
  have m: "map projectId (db_Task ex_world) = [''project123'']"
    "map xata_id (db_Task ex_world) = [''rec_0'']"
    "map assignedToId (db_Task ex_world) = [Some ''user456'']"
    by (simp_all add: ex_world_def ex_task_def)
  show ?thesis
    using p i u m empty_result_policy [where w = ex_world and pid = "''project999''"
        and i = "''missing-id''" and userId = "''user999''"]
    by blast
qed

end
